theory Spec2Isabelle
  imports Main "HOL-Library.Sublist" "HOL-Library.Word"
begin

unbundle bit_operations_syntax

section \<open>Python strings\<close>

text \<open>
  A Python \<^verbatim>\<open>str\<close> is a sequence of Unicode code points, and \<^verbatim>\<open>len\<close>, \<^verbatim>\<open>find\<close> and
  slicing count code points. The markers and the template of the program hold Cyrillic
  letters, so a character is modelled by its code point and a string by the list of them.
\<close>

type_synonym pychar = nat
type_synonym pystr = "pychar list"

definition ascii :: "string \<Rightarrow> pystr" where
  "ascii s = map of_char s"

text \<open>
  \<^verbatim>\<open>s.replace(old, new)\<close>: every non-overlapping occurrence of \<open>old\<close>, scanning from the left,
  is replaced by \<open>new\<close>; an empty \<open>old\<close> matches before every character and at the end.
\<close>

function str_replace :: "pystr \<Rightarrow> pystr \<Rightarrow> pystr \<Rightarrow> pystr" where
  "str_replace old new s =
     (if old = [] then new @ concat (map (\<lambda>c. c # new) s)
      else if s = [] then []
      else if prefix old s then new @ str_replace old new (drop (length old) s)
      else hd s # str_replace old new (tl s))"
  by pat_completeness auto
termination
  by (relation "measure (\<lambda>(old, new, s). length s)") auto

declare str_replace.simps [simp del]

text \<open>
  \<^verbatim>\<open>s.find(sub, start)\<close> for \<open>start \<ge> 0\<close>: the lowest index \<open>i \<ge> start\<close> at which \<open>sub\<close> occurs
  in \<open>s\<close>, and \<open>-1\<close> when there is none (also when \<open>start\<close> is beyond the end of \<open>s\<close>).
\<close>

fun find_aux :: "pystr \<Rightarrow> pystr \<Rightarrow> nat \<Rightarrow> int" where
  "find_aux sub [] i = (if sub = [] then int i else - 1)"
| "find_aux sub (c # cs) i =
     (if prefix sub (c # cs) then int i else find_aux sub cs (Suc i))"

definition str_find :: "pystr \<Rightarrow> pystr \<Rightarrow> nat \<Rightarrow> int" where
  "str_find s sub start =
     (if start > length s then - 1 else find_aux sub (drop start s) start)"

text \<open>
  \<^verbatim>\<open>s[a:b]\<close>: a negative bound counts from the end, and both bounds are clamped to the
  string.
\<close>

definition slice_bound :: "pystr \<Rightarrow> int \<Rightarrow> nat" where
  "slice_bound s a =
     (if a < 0 then nat (max (a + int (length s)) 0) else min (nat a) (length s))"

definition str_slice :: "pystr \<Rightarrow> int \<Rightarrow> int \<Rightarrow> pystr" where
  "str_slice s a b = drop (slice_bound s a) (take (slice_bound s b) s)"

section \<open>The XML escaper\<close>

definition escape_xml :: "pystr \<Rightarrow> pystr" where
  "escape_xml text0 =
     (let text1 = str_replace (ascii ''&'') (ascii ''&amp;'') text0;
          text2 = str_replace (ascii ''<'') (ascii ''&lt;'') text1;
          text3 = str_replace (ascii ''>'') (ascii ''&gt;'') text2
      in text3)"

text \<open>
  The escaper as the specification words it: each character is mapped on its own, the
  three markup characters to their entities and every other character to itself.
\<close>

definition escape_char_spec :: "pychar \<Rightarrow> pystr" where
  "escape_char_spec c =
     (if c = 38 then ascii ''&amp;''
      else if c = 60 then ascii ''&lt;''
      else if c = 62 then ascii ''&gt;''
      else [c])"

definition escape_xml_spec :: "pystr \<Rightarrow> pystr" where
  "escape_xml_spec s = concat (map escape_char_spec s)"

section \<open>The fragment assembler\<close>

text \<open>
  The two region markers of the source, by code points: \<^verbatim>\<open>start_marker\<close> is the number
  sign followed by the Cyrillic words "Oblast' ProgrammnyjInterfejs" (29 characters, one
  space), \<^verbatim>\<open>end_marker\<close> the number sign followed by "KonecOblasti" (13 characters).
\<close>

definition start_marker :: pystr where
  "start_marker =
    [35, 1054, 1073, 1083, 1072, 1089, 1090, 1100, 32, 1055, 1088, 1086, 1075, 1088, 1072,
     1084, 1084, 1085, 1099, 1081, 1048, 1085, 1090, 1077, 1088, 1092, 1077, 1081, 1089]"

definition end_marker :: pystr where
  "end_marker =
    [35, 1050, 1086, 1085, 1077, 1094, 1054, 1073, 1083, 1072, 1089, 1090, 1080]"

text \<open>
  The region of the export-functions text that the assembler appends: \<open>None\<close> where the
  source appends nothing (the text is empty, or one of the two searches returns \<open>-1\<close>).
\<close>

definition program_interface_code :: "pystr \<Rightarrow> pystr option" where
  "program_interface_code export_functions_code =
     (if export_functions_code \<noteq> [] then
        (let start_pos = str_find export_functions_code start_marker 0 in
         if start_pos \<ge> 0 then
           (let end_pos = str_find export_functions_code end_marker
                            (nat (start_pos + int (length start_marker))) in
            if end_pos \<ge> 0 then
              Some (str_slice export_functions_code start_pos
                      (end_pos + int (length end_marker)))
            else None)
         else None)
      else None)"

text \<open>
  The assembled module text, from the three texts read: the module, the extensions and the
  export functions, in the order the source reads them.
\<close>

definition full_module_code :: "pystr \<Rightarrow> pystr \<Rightarrow> pystr \<Rightarrow> pystr" where
  "full_module_code module_code extensions_code export_functions_code =
     (let full0 = module_code;
          full1 = (case program_interface_code export_functions_code of
                     Some region \<Rightarrow> full0 @ ascii ''\<newline>\<newline>'' @ region
                   | None \<Rightarrow> full0);
          full2 = (if extensions_code \<noteq> [] then full1 @ ascii ''\<newline>\<newline>'' @ extensions_code
                   else full1)
      in full2)"

section \<open>The identifier generator\<close>

text \<open>
  \<^verbatim>\<open>uuid.uuid4()\<close> of the standard library: sixteen random bytes read as a 128-bit number,
  with the variant bits set to \<open>10\<close> and the version nibble set to \<open>4\<close>. The random bytes are
  the parameter.
\<close>

definition uuid4 :: "128 word \<Rightarrow> 128 word" where
  "uuid4 r =
     (let i1 = r AND NOT (push_bit 48 0xc000);
          i2 = i1 OR push_bit 48 0x8000;
          i3 = i2 AND NOT (push_bit 64 0xf000);
          i4 = i3 OR push_bit 76 4
      in i4)"

definition hex_digit :: "nat \<Rightarrow> pychar" where
  "hex_digit d = (if d < 10 then 48 + d else 87 + d)"

text \<open>\<^verbatim>\<open>'%x' % n\<close>: the lowercase hexadecimal digits of \<open>n\<close>, without leading zeros.\<close>

fun hex_digits :: "nat \<Rightarrow> pystr" where
  "hex_digits n =
     (if n < 16 then [hex_digit n] else hex_digits (n div 16) @ [hex_digit (n mod 16)])"

declare hex_digits.simps [simp del]

text \<open>\<^verbatim>\<open>'%032x' % n\<close>: the same, padded with zeros on the left to at least 32 characters.\<close>

definition hex032 :: "nat \<Rightarrow> pystr" where
  "hex032 n = (let ds = hex_digits n in replicate (32 - length ds) 48 @ ds)"

text \<open>\<^verbatim>\<open>str(u)\<close> of a UUID: the 32 digits in groups of 8, 4, 4, 4 and 12, joined by hyphens.\<close>

definition str_uuid :: "128 word \<Rightarrow> pystr" where
  "str_uuid u =
     (let hex = hex032 (unat u) in
      str_slice hex 0 8 @ ascii ''-'' @ str_slice hex 8 12 @ ascii ''-'' @
      str_slice hex 12 16 @ ascii ''-'' @ str_slice hex 16 20 @ ascii ''-'' @
      str_slice hex 20 (int (length hex)))"

text \<open>
  \<^verbatim>\<open>s.upper()\<close> on the characters of the ASCII range, the only ones the text of a UUID
  holds: a lowercase Latin letter goes to its capital. Characters outside that range are
  left as they are here, which is not what Python does with them.
\<close>

definition upper_char :: "pychar \<Rightarrow> pychar" where
  "upper_char c = (if 97 \<le> c \<and> c \<le> 122 then c - 32 else c)"

definition str_upper :: "pystr \<Rightarrow> pystr" where
  "str_upper s = map upper_char s"

definition processing_uuid :: "128 word \<Rightarrow> pystr" where
  "processing_uuid r = str_replace (ascii ''-'') [] (str_upper (str_uuid (uuid4 r)))"

text \<open>The lowercase and the uppercase hexadecimal digits, as sets of code points.\<close>

definition lower_hex :: "pychar \<Rightarrow> bool" where
  "lower_hex c \<longleftrightarrow> (48 \<le> c \<and> c \<le> 57) \<or> (97 \<le> c \<and> c \<le> 102)"

definition upper_hex :: "pychar \<Rightarrow> bool" where
  "upper_hex c \<longleftrightarrow> (48 \<le> c \<and> c \<le> 57) \<or> (65 \<le> c \<and> c \<le> 70)"

section \<open>The file reader\<close>

text \<open>
  What opening and reading a path gives: the decoded content, or an exception of class
  \<^verbatim>\<open>Exception\<close> (a missing file, a permission error, a decoding error, ...) with its
  message. The file system is a function from paths to such outcomes.
\<close>

datatype read_outcome = Content pystr | ReadError pystr

text \<open>
  \<^verbatim>\<open>read_file_content\<close> returns the lines it printed together with its return value. The
  diagnostic starts with the Cyrillic words "Oshibka chteniya fajla" and a space.
\<close>

definition read_error_prefix :: pystr where
  "read_error_prefix =
    [1054, 1096, 1080, 1073, 1082, 1072, 32, 1095, 1090, 1077, 1085, 1080, 1103, 32,
     1092, 1072, 1081, 1083, 1072, 32]"

definition read_file_content :: "(pystr \<Rightarrow> read_outcome) \<Rightarrow> pystr \<Rightarrow> pystr list \<times> pystr" where
  "read_file_content fs filepath =
     (case fs filepath of
        Content s \<Rightarrow> ([], s)
      | ReadError e \<Rightarrow> ([read_error_prefix @ filepath @ ascii '': '' @ e], []))"

section \<open>The document and the run\<close>

text \<open>The template literal of \<^verbatim>\<open>xml_content\<close> up to the first interpolation point
  (source lines 70-73, ending with the opening uuid tag).\<close>

definition xml_head :: pystr where
  \<open>xml_head =
    [60, 63, 120, 109, 108, 32, 118, 101, 114, 115, 105, 111, 110, 61, 34, 49, 46, 48,
     34, 32, 101, 110, 99, 111, 100, 105, 110, 103, 61, 34, 85, 84, 70, 45, 56, 34,
     63, 62, 10] @
    [60, 77, 101, 116, 97, 68, 97, 116, 97, 79, 98, 106, 101, 99, 116, 32, 120, 109,
     108, 110, 115, 61, 34, 104, 116, 116, 112, 58, 47, 47, 118, 56, 46, 49, 99, 46,
     114, 117, 47, 56, 46, 51, 47, 77, 68, 67, 108, 97, 115, 115, 101, 115, 34, 32,
     120, 109, 108, 110, 115, 58, 97, 112, 112, 61, 34, 104, 116, 116, 112, 58, 47, 47,
     118, 56, 46, 49, 99, 46, 114, 117, 47, 56, 46, 50, 47, 109, 97, 110, 97, 103,
     101, 100, 45, 97, 112, 112, 108, 105, 99, 97, 116, 105, 111, 110, 47, 99, 111, 114,
     101, 34, 32, 120, 109, 108, 110, 115, 58, 99, 102, 103, 61, 34, 104, 116, 116, 112,
     58, 47, 47, 118, 56, 46, 49, 99, 46, 114, 117, 47, 56, 46, 49, 47, 100, 97,
     116, 97, 47, 101, 110, 116, 101, 114, 112, 114, 105, 115, 101, 47, 99, 117, 114, 114,
     101, 110, 116, 45, 99, 111, 110, 102, 105, 103, 34, 32, 120, 109, 108, 110, 115, 58,
     99, 109, 105, 61, 34, 104, 116, 116, 112, 58, 47, 47, 118, 56, 46, 49, 99, 46,
     114, 117, 47, 56, 46, 50, 47, 109, 97, 110, 97, 103, 101, 100, 45, 97, 112, 112,
     108, 105, 99, 97, 116, 105, 111, 110, 47, 99, 109, 105, 34, 32, 120, 109, 108, 110,
     115, 58, 101, 110, 116, 61, 34, 104, 116, 116, 112, 58, 47, 47, 118, 56, 46, 49,
     99, 46, 114, 117, 47, 56, 46, 49, 47, 100, 97, 116, 97, 47, 101, 110, 116, 101,
     114, 112, 114, 105, 115, 101, 47, 99, 117, 114, 114, 101, 110, 116, 45, 99, 111, 110,
     102, 105, 103, 34, 32, 120, 109, 108, 110, 115, 58, 108, 102, 61, 34, 104, 116, 116,
     112, 58, 47, 47, 118, 56, 46, 49, 99, 46, 114, 117, 47, 56, 46, 50, 47, 109,
     97, 110, 97, 103, 101, 100, 45, 97, 112, 112, 108, 105, 99, 97, 116, 105, 111, 110,
     47, 108, 111, 103, 102, 111, 114, 109, 34, 32, 120, 109, 108, 110, 115, 58, 115, 116,
     121, 108, 101, 61, 34, 104, 116, 116, 112, 58, 47, 47, 118, 56, 46, 49, 99, 46,
     114, 117, 47, 56, 46, 49, 47, 100, 97, 116, 97, 47, 117, 105, 47, 115, 116, 121,
     108, 101, 34, 32, 120, 109, 108, 110, 115, 58, 115, 121, 115, 61, 34, 104, 116, 116,
     112, 58, 47, 47, 118, 56, 46, 49, 99, 46, 114, 117, 47, 56, 46, 49, 47, 100,
     97, 116, 97, 47, 117, 105, 47, 102, 111, 110, 116, 115, 47, 115, 121, 115, 116, 101,
     109, 34, 32, 120, 109, 108, 110, 115, 58, 118, 56, 61, 34, 104, 116, 116, 112, 58,
     47, 47, 118, 56, 46, 49, 99, 46, 114, 117, 47, 56, 46, 49, 47, 100, 97, 116,
     97, 47, 99, 111, 114, 101, 34, 32, 120, 109, 108, 110, 115, 58, 118, 56, 117, 105,
     61, 34, 104, 116, 116, 112, 58, 47, 47, 118, 56, 46, 49, 99, 46, 114, 117, 47,
     56, 46, 49, 47, 100, 97, 116, 97, 47, 117, 105, 34, 32, 120, 109, 108, 110, 115,
     58, 119, 101, 98, 61, 34, 104, 116, 116, 112, 58, 47, 47, 118, 56, 46, 49, 99,
     46, 114, 117, 47, 56, 46, 49, 47, 100, 97, 116, 97, 47, 117, 105, 47, 99, 111,
     108, 111, 114, 115, 47, 119, 101, 98, 34, 32, 120, 109, 108, 110, 115, 58, 119, 105,
     110, 61, 34, 104, 116, 116, 112, 58, 47, 47, 118, 56, 46, 49, 99, 46, 114, 117,
     47, 56, 46, 49, 47, 100, 97, 116, 97, 47, 117, 105, 47, 99, 111, 108, 111, 114,
     115, 47, 119, 105, 110, 100, 111, 119, 115, 34, 32, 120, 109, 108, 110, 115, 58, 120,
     101, 110, 61, 34, 104, 116, 116, 112, 58, 47, 47, 118, 56, 46, 49, 99, 46, 114,
     117, 47, 56, 46, 51, 47, 120, 99, 102, 47, 101, 110, 117, 109, 115, 34, 32, 120,
     109, 108, 110, 115, 58, 120, 112, 114, 61, 34, 104, 116, 116, 112, 58, 47, 47, 118,
     56, 46, 49, 99, 46, 114, 117, 47, 56, 46, 51, 47, 120, 99, 102, 47, 112, 114,
     101, 100, 101, 102, 34, 32, 120, 109, 108, 110, 115, 58, 120, 114, 61, 34, 104, 116,
     116, 112, 58, 47, 47, 118, 56, 46, 49, 99, 46, 114, 117, 47, 56, 46, 51, 47,
     120, 99, 102, 47, 114, 101, 97, 100, 97, 98, 108, 101, 34, 32, 120, 109, 108, 110,
     115, 58, 120, 115, 61, 34, 104, 116, 116, 112, 58, 47, 47, 119, 119, 119, 46, 119,
     51, 46, 111, 114, 103, 47, 50, 48, 48, 49, 47, 88, 77, 76, 83, 99, 104, 101,
     109, 97, 34, 32, 120, 109, 108, 110, 115, 58, 120, 115, 105, 61, 34, 104, 116, 116,
     112, 58, 47, 47, 119, 119, 119, 46, 119, 51, 46, 111, 114, 103, 47, 50, 48, 48,
     49, 47, 88, 77, 76, 83, 99, 104, 101, 109, 97, 45, 105, 110, 115, 116, 97, 110,
     99, 101, 34, 32, 118, 101, 114, 115, 105, 111, 110, 61, 34, 50, 46, 49, 50, 34,
     62, 10] @
    ascii ''  <DataProcessor>'' @ [10] @
    ascii ''    <uuid>''\<close>

text \<open>The template literal from the closing uuid tag to the opening of the module's
  character-data block, which it leaves out (source lines 73-81).\<close>

definition xml_before_module :: pystr where
  \<open>xml_before_module =
    ascii ''</uuid>'' @ [10] @
    [32, 32, 32, 32, 60, 110, 97, 109, 101, 62, 1042, 1099, 1075, 1088, 1091, 1079, 1082, 1072,
     1044, 1072, 1085, 1085, 1099, 1093, 1042, 1057, 1077, 1088, 1074, 1080, 1089, 60, 47, 110, 97, 109,
     101, 62, 10] @
    ascii ''    <synonym>'' @ [10] @
    ascii ''      <key>ru</key>'' @ [10] @
    [32, 32, 32, 32, 32, 32, 60, 118, 97, 108, 117, 101, 62, 1042, 1099, 1075, 1088, 1091,
     1079, 1082, 1072, 32, 1076, 1072, 1085, 1085, 1099, 1093, 32, 1074, 32, 1089, 1077, 1088, 1074, 1080,
     1089, 32, 1085, 1086, 1088, 1084, 1072, 1083, 1080, 1079, 1072, 1094, 1080, 1080, 60, 47, 118, 97,
     108, 117, 101, 62, 10] @
    ascii ''    </synonym>'' @ [10] @
    [32, 32, 32, 32, 60, 99, 111, 109, 109, 101, 110, 116, 62, 1054, 1073, 1088, 1072, 1073,
     1086, 1090, 1082, 1072, 32, 1076, 1083, 1103, 32, 1074, 1099, 1075, 1088, 1091, 1079, 1082, 1080, 32,
     1076, 1072, 1085, 1085, 1099, 1093, 32, 1080, 1079, 32, 49, 1057, 32, 1074, 32, 1089, 1077, 1088,
     1074, 1080, 1089, 32, 1085, 1086, 1088, 1084, 1072, 1083, 1080, 1079, 1072, 1094, 1080, 1080, 32, 1080,
     32, 1072, 1085, 1072, 1083, 1080, 1079, 1072, 32, 1095, 1077, 1088, 1077, 1079, 32, 72, 84, 84,
     80, 60, 47, 99, 111, 109, 109, 101, 110, 116, 62, 10] @
    ascii ''    <module>'' @ [10] @
    ascii ''      <text>''\<close>

text \<open>The template literal after the closing of the module's character-data block (source lines
  81-113: the static form module and the closing tags).\<close>

definition xml_after_module :: pystr where
  \<open>xml_after_module =
    ascii ''</text>'' @ [10] @
    ascii ''    </module>'' @ [10] @
    ascii ''    <forms>'' @ [10] @
    ascii ''      <form>'' @ [10] @
    [32, 32, 32, 32, 32, 32, 32, 32, 60, 110, 97, 109, 101, 62, 1060, 1086, 1088, 1084,
     1072, 60, 47, 110, 97, 109, 101, 62, 10] @
    ascii ''        <synonym>'' @ [10] @
    ascii ''          <key>ru</key>'' @ [10] @
    [32, 32, 32, 32, 32, 32, 32, 32, 32, 32, 60, 118, 97, 108, 117, 101, 62, 1060,
     1086, 1088, 1084, 1072, 60, 47, 118, 97, 108, 117, 101, 62, 10] @
    ascii ''        </synonym>'' @ [10] @
    ascii ''        <module>'' @ [10] @
    [32, 32, 32, 32, 32, 32, 32, 32, 32, 32, 60, 116, 101, 120, 116, 62, 60, 33,
     91, 67, 68, 65, 84, 65, 91, 38, 1053, 1072, 1050, 1083, 1080, 1077, 1085, 1090, 1077, 10] @
    [1055, 1088, 1086, 1094, 1077, 1076, 1091, 1088, 1072, 32, 1055, 1088, 1080, 1057, 1086, 1079, 1076, 1072,
     1085, 1080, 1080, 1053, 1072, 1057, 1077, 1088, 1074, 1077, 1088, 1077, 40, 1054, 1090, 1082, 1072, 1079,
     44, 32, 1057, 1090, 1072, 1085, 1076, 1072, 1088, 1090, 1085, 1072, 1103, 1054, 1073, 1088, 1072, 1073,
     1086, 1090, 1082, 1072, 41, 10] @
    [9, 10] @
    [9, 47, 47, 32, 1059, 1089, 1090, 1072, 1085, 1072, 1074, 1083, 1080, 1074, 1072, 1077, 1084, 32,
     1079, 1085, 1072, 1095, 1077, 1085, 1080, 1103, 32, 1087, 1086, 32, 1091, 1084, 1086, 1083, 1095, 1072,
     1085, 1080, 1102, 10] @
    [9, 1045, 1089, 1083, 1080, 32, 1054, 1073, 1098, 1077, 1082, 1090, 46, 1040, 1076, 1088, 1077, 1089,
     1057, 1077, 1088, 1074, 1077, 1088, 1072, 32, 61, 32, 34, 34, 32, 1058, 1086, 1075, 1076, 1072,
     10] @
    [9, 9, 1054, 1073, 1098, 1077, 1082, 1090, 46, 1040, 1076, 1088, 1077, 1089, 1057, 1077, 1088, 1074,
     1077, 1088, 1072, 32, 61, 32, 34, 104, 116, 116, 112, 58, 47, 47, 108, 111, 99, 97,
     108, 104, 111, 115, 116, 58, 57, 57, 57, 57, 34, 59, 10] @
    [9, 1050, 1086, 1085, 1077, 1094, 1045, 1089, 1083, 1080, 59, 10] @
    [9, 10] @
    [9, 1045, 1089, 1083, 1080, 32, 1054, 1073, 1098, 1077, 1082, 1090, 46, 1056, 1072, 1079, 1084, 1077,
     1088, 1055, 1072, 1082, 1077, 1090, 1072, 32, 61, 32, 48, 32, 1058, 1086, 1075, 1076, 1072, 10] @
    [9, 9, 1054, 1073, 1098, 1077, 1082, 1090, 46, 1056, 1072, 1079, 1084, 1077, 1088, 1055, 1072, 1082,
     1077, 1090, 1072, 32, 61, 32, 53, 48, 59, 10] @
    [9, 1050, 1086, 1085, 1077, 1094, 1045, 1089, 1083, 1080, 59, 10] @
    [9, 10] @
    [9, 1045, 1089, 1083, 1080, 32, 1054, 1073, 1098, 1077, 1082, 1090, 46, 1048, 1089, 1087, 1086, 1083,
     1100, 1079, 1086, 1074, 1072, 1090, 1100, 1055, 1072, 1082, 1077, 1090, 1085, 1091, 1102, 1042, 1099, 1075,
     1088, 1091, 1079, 1082, 1091, 32, 61, 32, 1053, 1077, 1086, 1087, 1088, 1077, 1076, 1077, 1083, 1077,
     1085, 1086, 32, 1058, 1086, 1075, 1076, 1072, 10] @
    [9, 9, 1054, 1073, 1098, 1077, 1082, 1090, 46, 1048, 1089, 1087, 1086, 1083, 1100, 1079, 1086, 1074,
     1072, 1090, 1100, 1055, 1072, 1082, 1077, 1090, 1085, 1091, 1102, 1042, 1099, 1075, 1088, 1091, 1079, 1082,
     1091, 32, 61, 32, 1048, 1089, 1090, 1080, 1085, 1072, 59, 10] @
    [9, 1050, 1086, 1085, 1077, 1094, 1045, 1089, 1083, 1080, 59, 10] @
    [9, 10] @
    [1050, 1086, 1085, 1077, 1094, 1055, 1088, 1086, 1094, 1077, 1076, 1091, 1088, 1099, 93, 93, 62, 60,
     47, 116, 101, 120, 116, 62, 10] @
    ascii ''        </module>'' @ [10] @
    ascii ''      </form>'' @ [10] @
    ascii ''    </forms>'' @ [10] @
    ascii ''  </DataProcessor>'' @ [10] @
    ascii ''</MetaDataObject>''\<close>

text \<open>
  The delimiters of a character-data block. The template is cut at them, so that the
  document reads: head, identifier, the part before the module, the opening delimiter, the
  module text, the closing delimiter, the rest.
\<close>

definition cdata_open :: pystr where
  "cdata_open = ascii ''<![CDATA[''"

definition cdata_close :: pystr where
  "cdata_close = ascii '']]>''"

text \<open>\<^verbatim>\<open>str(n)\<close> for a length: the decimal digits of \<open>n\<close>.\<close>

fun str_nat :: "nat \<Rightarrow> pystr" where
  "str_nat n = (if n < 10 then [48 + n] else str_nat (n div 10) @ [48 + n mod 10])"

declare str_nat.simps [simp del]

text \<open>
  The three lines of the summary start with the Cyrillic phrases "XML fajl obrabotki
  sozdan: ", "UUID obrabotki: " and "Razmer modulya: "; the last one ends with " simvolov".
\<close>

definition created_prefix :: pystr where
  "created_prefix =
    [88, 77, 76, 32, 1092, 1072, 1081, 1083, 32, 1086, 1073, 1088, 1072, 1073, 1086, 1090,
     1082, 1080, 32, 1089, 1086, 1079, 1076, 1072, 1085, 58, 32]"

definition uuid_prefix :: pystr where
  "uuid_prefix =
    [85, 85, 73, 68, 32, 1086, 1073, 1088, 1072, 1073, 1086, 1090, 1082, 1080, 58, 32]"

definition size_prefix :: pystr where
  "size_prefix =
    [1056, 1072, 1079, 1084, 1077, 1088, 32, 1084, 1086, 1076, 1091, 1083, 1103, 58, 32]"

definition size_suffix :: pystr where
  "size_suffix = [32, 1089, 1080, 1084, 1074, 1086, 1083, 1086, 1074]"

text \<open>The four paths of the source, all relative and fixed.\<close>

definition module_path :: pystr where
  "module_path = ascii ''1c_processing/Module/Module.bsl''"

definition extensions_path :: pystr where
  "extensions_path = ascii ''1c_module_extensions.bsl''"

definition export_functions_path :: pystr where
  "export_functions_path = ascii ''1c_export_functions.txt''"

definition output_path :: pystr where
  "output_path = ascii ''1c_processing_export.xml''"

text \<open>
  One run of the program. Its inputs are the file system it reads, the exception (if any)
  that opening or writing the output file raises, and the random bytes of the identifier.
  Its effects are the lines printed, the file written and the exception that ends it.
\<close>

record run =
  console :: "pystr list"
  written :: "(pystr \<times> pystr) option"
  raised :: "pystr option"

definition create_1c_processing_xml ::
    "(pystr \<Rightarrow> read_outcome) \<Rightarrow> (pystr \<Rightarrow> pystr option) \<Rightarrow> 128 word \<Rightarrow> run" where
  "create_1c_processing_xml fs write_error r =
     (let (out1, module_code) = read_file_content fs module_path;
          (out2, extensions_code) = read_file_content fs extensions_path;
          (out3, export_functions_code) = read_file_content fs export_functions_path;
          full = full_module_code module_code extensions_code export_functions_code;
          escaped_module_code = escape_xml full;
          uuid = processing_uuid r;
          xml_content = xml_head @ uuid @ xml_before_module @ cdata_open @ full @
                        cdata_close @ xml_after_module;
          output_file = output_path
      in case write_error output_file of
           Some e \<Rightarrow> \<lparr>console = out1 @ out2 @ out3, written = None, raised = Some e\<rparr>
         | None \<Rightarrow>
             \<lparr>console = out1 @ out2 @ out3 @
                 [created_prefix @ output_file,
                  uuid_prefix @ uuid,
                  size_prefix @ str_nat (length full) @ size_suffix],
              written = Some (output_file, xml_content),
              raised = None\<rparr>)"

text \<open>
  A file system given by the list of the files that exist, with their contents; opening
  any other path fails as a missing file does.
\<close>

definition files :: "(pystr \<times> pystr) list \<Rightarrow> pystr \<Rightarrow> read_outcome" where
  "files fl path =
     (case map_of fl path of
        Some s \<Rightarrow> Content s
      | None \<Rightarrow> ReadError (ascii ''No such file or directory''))"

section \<open>Facts about the string primitives\<close>

lemma str_replace_Nil:
  "old \<noteq> [] \<Longrightarrow> str_replace old new [] = []"
  by (simp add: str_replace.simps)

lemma str_replace_single_Cons:
  "str_replace [c] new (x # xs) =
     (if x = c then new else [x]) @ str_replace [c] new xs"
  by (subst str_replace.simps) simp

lemma str_replace_single:
  "str_replace [c] new s = concat (map (\<lambda>x. if x = c then new else [x]) s)"
  by (induction s) (simp_all add: str_replace_Nil str_replace_single_Cons)

lemma str_replace_single_append:
  "str_replace [c] new (xs @ ys) = str_replace [c] new xs @ str_replace [c] new ys"
  by (simp add: str_replace_single)

lemma str_replace_single_concat:
  "str_replace [c] new (concat xss) = concat (map (str_replace [c] new) xss)"
  by (induction xss) (simp_all add: str_replace_Nil str_replace_single_append)

lemma escape_char_passes:
  "str_replace [62] (ascii ''&gt;'')
     (str_replace [60] (ascii ''&lt;'') (if x = 38 then ascii ''&amp;'' else [x]))
   = escape_char_spec x"
  by (simp add: escape_char_spec_def ascii_def str_replace_single)

lemma escape_xml_refines:
  "escape_xml s = escape_xml_spec s"
proof -
  let ?amp = "\<lambda>x. if x = 38 then ascii ''&amp;'' else [x]"
  have "escape_xml s =
      str_replace [62] (ascii ''&gt;'')
        (str_replace [60] (ascii ''&lt;'') (str_replace [38] (ascii ''&amp;'') s))"
    by (simp add: escape_xml_def ascii_def)
  also have "str_replace [38] (ascii ''&amp;'') s = concat (map ?amp s)"
    by (rule str_replace_single)
  also have "str_replace [62] (ascii ''&gt;'')
        (str_replace [60] (ascii ''&lt;'') (concat (map ?amp s)))
      = concat (map (\<lambda>x. str_replace [62] (ascii ''&gt;'')
          (str_replace [60] (ascii ''&lt;'') (?amp x))) s)"
    by (simp only: str_replace_single_concat map_map comp_def)
  also have "\<dots> = concat (map escape_char_spec s)"
    by (simp only: escape_char_passes)
  finally show ?thesis by (simp add: escape_xml_spec_def)
qed

lemma escape_xml_Nil [simp]: "escape_xml [] = []"
  by (simp add: escape_xml_refines escape_xml_spec_def)

lemma escape_xml_Cons:
  "escape_xml (c # s) = escape_char_spec c @ escape_xml s"
  by (simp add: escape_xml_refines escape_xml_spec_def)

lemma length_escape_char_spec:
  "length (escape_char_spec c) = (if c = 38 then 5 else if c = 60 \<or> c = 62 then 4 else 1)"
  by (simp add: escape_char_spec_def ascii_def)

lemma length_escape_xml_ge: "length s \<le> length (escape_xml s)"
  by (induction s) (simp_all add: escape_xml_Cons length_escape_char_spec)

lemma length_escape_xml_amp:
  "38 \<in> set s \<Longrightarrow> length s < length (escape_xml s)"
proof (induction s)
  case Nil
  then show ?case by simp
next
  case (Cons c s)
  have ge: "length s \<le> length (escape_xml s)" by (rule length_escape_xml_ge)
  show ?case
  proof (cases "c = 38")
    case True
    then show ?thesis using ge by (simp add: escape_xml_Cons length_escape_char_spec)
  next
    case False
    with Cons.prems have "38 \<in> set s" by simp
    then have "length s < length (escape_xml s)" by (rule Cons.IH)
    then show ?thesis by (simp add: escape_xml_Cons length_escape_char_spec)
  qed
qed

lemma amp_in_escape_xml:
  "38 \<in> set s \<or> 60 \<in> set s \<or> 62 \<in> set s \<Longrightarrow> 38 \<in> set (escape_xml s)"
  by (induction s) (auto simp add: escape_xml_Cons escape_char_spec_def ascii_def)

section \<open>Facts about searching and the region\<close>

lemma find_aux_none: "find_aux sub s i = - 1 \<longleftrightarrow> \<not> sublist sub s"
  by (induction s arbitrary: i) (auto simp add: sublist_Cons_right)

lemma find_aux_first:
  assumes "sub \<noteq> []" and "\<not> sublist sub (pre @ butlast sub)"
  shows "find_aux sub (pre @ sub @ rest) i = int (i + length pre)"
  using assms(2)
proof (induction pre arbitrary: i)
  case Nil
  from assms(1) obtain c cs where "sub = c # cs" by (cases sub) auto
  then show ?case by simp
next
  case (Cons a pre)
  have no_prefix: "\<not> prefix sub ((a # pre) @ sub @ rest)"
  proof
    assume p: "prefix sub ((a # pre) @ sub @ rest)"
    have q: "prefix ((a # pre) @ butlast sub) ((a # pre) @ sub @ rest)"
      using assms(1) by (metis append_butlast_last_id append.assoc prefixI)
    have "length sub \<le> length ((a # pre) @ butlast sub)" by simp
    with p q have "prefix sub ((a # pre) @ butlast sub)"
      by (rule prefix_length_prefix)
    then have "sublist sub ((a # pre) @ butlast sub)" by (rule prefix_imp_sublist)
    with Cons.prems show False by simp
  qed
  from Cons.prems have "\<not> sublist sub (pre @ butlast sub)"
    by (simp add: sublist_Cons_right)
  then have "find_aux sub (pre @ sub @ rest) (Suc i) = int (Suc i + length pre)"
    by (rule Cons.IH)
  with no_prefix show ?case by simp
qed

lemma find_aux_found:
  assumes "sub \<noteq> []" and "find_aux sub s i \<noteq> - 1"
  shows "\<exists>pre rest. s = pre @ sub @ rest \<and> find_aux sub s i = int (i + length pre)
           \<and> \<not> sublist sub (pre @ butlast sub)"
  using assms(2)
proof (induction s arbitrary: i)
  case Nil
  with assms(1) show ?case by simp
next
  case (Cons c cs)
  show ?case
  proof (cases "prefix sub (c # cs)")
    case True
    then have v: "find_aux sub (c # cs) i = int i" by simp
    from True obtain rest where "c # cs = sub @ rest" by (auto simp add: prefix_def)
    moreover have "\<not> sublist sub (butlast sub)"
    proof
      assume "sublist sub (butlast sub)"
      then have "length sub \<le> length (butlast sub)" by (rule sublist_length_le)
      moreover have "length (butlast sub) = length sub - 1" by (rule length_butlast)
      moreover from assms(1) have "length sub \<noteq> 0" by simp
      ultimately show False by arith
    qed
    ultimately have "c # cs = [] @ sub @ rest
        \<and> find_aux sub (c # cs) i = int (i + length ([] :: pystr))
        \<and> \<not> sublist sub ([] @ butlast sub)"
      using v by simp
    then show ?thesis by blast
  next
    case False
    with Cons.prems have "find_aux sub cs (Suc i) \<noteq> - 1" by simp
    then obtain pre rest where cs: "cs = pre @ sub @ rest"
      and val: "find_aux sub cs (Suc i) = int (Suc i + length pre)"
      and first: "\<not> sublist sub (pre @ butlast sub)"
      using Cons.IH by blast
    have "\<not> prefix sub (c # pre @ butlast sub)"
    proof
      assume p: "prefix sub (c # pre @ butlast sub)"
      have "prefix (c # pre @ butlast sub) (c # pre @ sub @ rest)"
        using assms(1) by (metis append_butlast_last_id append.assoc append_Cons prefixI)
      with p have "prefix sub (c # pre @ sub @ rest)" by (rule prefix_order.trans)
      with False cs show False by simp
    qed
    with first have "\<not> sublist sub ((c # pre) @ butlast sub)"
      by (simp add: sublist_Cons_right)
    moreover have "c # cs = (c # pre) @ sub @ rest" using cs by simp
    moreover have "find_aux sub (c # cs) i = int (i + length (c # pre))"
      using False val by simp
    ultimately show ?thesis by blast
  qed
qed

lemma str_find_0: "str_find s sub 0 = find_aux sub s 0"
  by (simp add: str_find_def)

lemma str_find_skip:
  "str_find (pre @ s) sub (length pre) = find_aux sub s (length pre)"
  by (simp add: str_find_def)

lemma str_slice_nat:
  "a \<le> length s \<Longrightarrow> b \<le> length s \<Longrightarrow> str_slice s (int a) (int b) = drop a (take b s)"
  by (simp add: str_slice_def slice_bound_def)

lemma start_marker_nonempty: "start_marker \<noteq> []"
  by (simp add: start_marker_def)

lemma end_marker_nonempty: "end_marker \<noteq> []"
  by (simp add: end_marker_def)

lemma program_interface_code_no_start:
  assumes "\<not> sublist start_marker sec"
  shows "program_interface_code sec = None"
proof -
  from assms have "find_aux start_marker sec 0 = - 1" by (simp add: find_aux_none)
  then show ?thesis by (simp add: program_interface_code_def str_find_0)
qed

lemma program_interface_code_no_end:
  assumes sec: "sec = pre @ start_marker @ rest"
    and first: "\<not> sublist start_marker (pre @ butlast start_marker)"
    and no_end: "\<not> sublist end_marker rest"
  shows "program_interface_code sec = None"
proof -
  have start: "str_find sec start_marker 0 = int (length pre)"
    using find_aux_first [OF start_marker_nonempty first, of rest 0]
    by (simp add: str_find_0 sec)
  have "str_find sec end_marker (length pre + length start_marker)
      = find_aux end_marker rest (length pre + length start_marker)"
    using str_find_skip [of "pre @ start_marker" rest end_marker] by (simp add: sec)
  also have "\<dots> = - 1" using no_end by (simp add: find_aux_none)
  finally have "str_find sec end_marker (length pre + length start_marker) = - 1" .
  with start show ?thesis
    by (simp add: program_interface_code_def Let_def nat_add_distrib)
qed

lemma program_interface_code_region:
  assumes sec: "sec = pre @ start_marker @ mid @ end_marker @ post"
    and first: "\<not> sublist start_marker (pre @ butlast start_marker)"
    and first_end: "\<not> sublist end_marker (mid @ butlast end_marker)"
  shows "program_interface_code sec = Some (start_marker @ mid @ end_marker)"
proof -
  have start: "str_find sec start_marker 0 = int (length pre)"
    using find_aux_first [OF start_marker_nonempty first, of "mid @ end_marker @ post" 0]
    by (simp add: str_find_0 sec)
  have "str_find sec end_marker (length pre + length start_marker)
      = find_aux end_marker (mid @ end_marker @ post) (length pre + length start_marker)"
    using str_find_skip [of "pre @ start_marker" "mid @ end_marker @ post" end_marker]
    by (simp add: sec)
  also have "\<dots> = int (length pre + length start_marker + length mid)"
    by (rule find_aux_first [OF end_marker_nonempty first_end])
  finally have stop: "str_find sec end_marker (length pre + length start_marker)
      = int (length pre + length start_marker + length mid)" .
  have "str_slice sec (int (length pre))
          (int (length pre + length start_marker + length mid + length end_marker))
        = start_marker @ mid @ end_marker"
    by (subst str_slice_nat) (simp_all add: sec)
  moreover have "sec \<noteq> []" using start_marker_nonempty by (simp add: sec)
  ultimately show ?thesis using start stop
    by (simp add: program_interface_code_def Let_def nat_add_distrib)
qed

lemma program_interface_code_SomeD:
  assumes "program_interface_code sec = Some r"
  shows "\<exists>pre mid post. sec = pre @ start_marker @ mid @ end_marker @ post
           \<and> r = start_marker @ mid @ end_marker
           \<and> \<not> sublist start_marker (pre @ butlast start_marker)
           \<and> \<not> sublist end_marker (mid @ butlast end_marker)"
proof -
  have found: "find_aux start_marker sec 0 \<noteq> - 1"
  proof
    assume "find_aux start_marker sec 0 = - 1"
    then have "program_interface_code sec = None"
      by (simp add: program_interface_code_def str_find_0)
    with assms show False by simp
  qed
  from find_aux_found [OF start_marker_nonempty found]
  obtain pre rest where sec: "sec = pre @ start_marker @ rest"
    and first: "\<not> sublist start_marker (pre @ butlast start_marker)"
    by auto
  have "sublist end_marker rest"
  proof (rule ccontr)
    assume "\<not> sublist end_marker rest"
    with sec first have "program_interface_code sec = None"
      by (rule program_interface_code_no_end)
    with assms show False by simp
  qed
  then have "find_aux end_marker rest 0 \<noteq> - 1" by (simp add: find_aux_none)
  from find_aux_found [OF end_marker_nonempty this]
  obtain mid post where rest: "rest = mid @ end_marker @ post"
    and first_end: "\<not> sublist end_marker (mid @ butlast end_marker)"
    by auto
  have sec': "sec = pre @ start_marker @ mid @ end_marker @ post"
    by (simp add: sec rest)
  from sec' first first_end
  have "program_interface_code sec = Some (start_marker @ mid @ end_marker)"
    by (rule program_interface_code_region)
  with assms have "r = start_marker @ mid @ end_marker" by simp
  with sec' first first_end show ?thesis by blast
qed

lemma full_module_code_decomp:
  "full_module_code p t sec =
     p @ (case program_interface_code sec of None \<Rightarrow> [] | Some region \<Rightarrow> [10, 10] @ region)
       @ (if t = [] then [] else [10, 10] @ t)"
  by (simp add: full_module_code_def ascii_def split: option.split)

lemma program_interface_code_Nil: "program_interface_code [] = None"
  by (simp add: program_interface_code_def)

section \<open>Facts about the identifier\<close>

lemma hex_digit_lower: "d < 16 \<Longrightarrow> lower_hex (hex_digit d)"
  by (auto simp add: lower_hex_def hex_digit_def)

lemma hex_digits_lower: "c \<in> set (hex_digits n) \<Longrightarrow> lower_hex c"
proof (induction n rule: hex_digits.induct)
  case (1 n)
  show ?case
  proof (cases "n < 16")
    case True
    with "1.prems" show ?thesis
      by (subst (asm) hex_digits.simps) (simp add: hex_digit_lower)
  next
    case False
    with "1.prems" have "c \<in> set (hex_digits (n div 16)) \<or> c = hex_digit (n mod 16)"
      by (subst (asm) hex_digits.simps) auto
    then show ?thesis
    proof
      assume "c \<in> set (hex_digits (n div 16))"
      with False show ?thesis using "1.IH" by blast
    next
      assume "c = hex_digit (n mod 16)"
      then show ?thesis by (simp add: hex_digit_lower)
    qed
  qed
qed

lemma length_hex_digits: "0 < k \<Longrightarrow> n < 16 ^ k \<Longrightarrow> length (hex_digits n) \<le> k"
proof (induction n arbitrary: k rule: hex_digits.induct)
  case (1 n)
  show ?case
  proof (cases "n < 16")
    case True
    with "1.prems" show ?thesis by (subst hex_digits.simps) simp
  next
    case False
    from "1.prems" obtain j where k: "k = Suc j" by (cases k) auto
    with False "1.prems" have "0 < j" by (cases j) auto
    moreover from "1.prems" k have "n div 16 < 16 ^ j"
      by (simp add: less_mult_imp_div_less mult.commute)
    ultimately have "length (hex_digits (n div 16)) \<le> j"
      using False by (intro "1.IH") simp_all
    with False k show ?thesis by (subst hex_digits.simps) simp
  qed
qed

lemma length_hex032: "n < 2 ^ 128 \<Longrightarrow> length (hex032 n) = 32"
proof -
  assume "n < 2 ^ 128"
  then have "n < 16 ^ 32" by simp
  then have "length (hex_digits n) \<le> 32" by (intro length_hex_digits) simp_all
  then show ?thesis by (simp add: hex032_def Let_def)
qed

lemma hex032_lower: "c \<in> set (hex032 n) \<Longrightarrow> lower_hex c"
  by (auto simp add: hex032_def Let_def hex_digits_lower) (simp add: lower_hex_def)

lemma str_replace_absent: "c \<notin> set s \<Longrightarrow> str_replace [c] new s = s"
  by (induction s) (simp_all add: str_replace_Nil str_replace_single_Cons)

lemma upper_char_hex: "lower_hex c \<Longrightarrow> upper_hex (upper_char c)"
  by (auto simp add: lower_hex_def upper_hex_def upper_char_def)

lemma str_uuid_groups:
  assumes "length h = 32"
  shows "str_slice h 0 8 @ str_slice h 8 12 @ str_slice h 12 16 @ str_slice h 16 20
           @ str_slice h 20 (int (length h)) = h"
proof -
  have "str_slice h 0 8 = take 8 h" "str_slice h 8 12 = take 4 (drop 8 h)"
    "str_slice h 12 16 = take 4 (drop 12 h)" "str_slice h 16 20 = take 4 (drop 16 h)"
    "str_slice h 20 (int (length h)) = drop 20 h"
    using assms by (simp_all add: str_slice_def slice_bound_def drop_take)
  moreover have "take 8 h @ take 4 (drop 8 h) @ take 4 (drop 12 h) @ take 4 (drop 16 h)
      @ drop 20 h = h"
  proof -
    have "take 4 (drop 16 h) @ drop 20 h = drop 16 h"
      using append_take_drop_id [of 4 "drop 16 h"] by simp
    moreover have "take 4 (drop 12 h) @ drop 16 h = drop 12 h"
      using append_take_drop_id [of 4 "drop 12 h"] by simp
    moreover have "take 4 (drop 8 h) @ drop 12 h = drop 8 h"
      using append_take_drop_id [of 4 "drop 8 h"] by simp
    ultimately show ?thesis by simp
  qed
  ultimately show ?thesis by simp
qed

lemma processing_uuid_eq:
  "processing_uuid r = map upper_char (hex032 (unat (uuid4 r)))"
proof -
  let ?h = "hex032 (unat (uuid4 r))"
  have "unat (uuid4 r) < 2 ^ LENGTH(128)" by (rule unsigned_less)
  then have len: "length ?h = 32" by (intro length_hex032) simp
  have no_hyphen: "45 \<notin> set (map upper_char (str_slice ?h a b))" for a b
  proof
    assume "45 \<in> set (map upper_char (str_slice ?h a b))"
    then obtain c where "c \<in> set (str_slice ?h a b)" and c: "upper_char c = 45" by auto
    then have "c \<in> set ?h"
      by (auto simp add: str_slice_def dest: in_set_dropD in_set_takeD)
    then have "upper_hex (upper_char c)" by (intro upper_char_hex hex032_lower)
    with c show False by (simp add: upper_hex_def)
  qed
  have "processing_uuid r =
      map upper_char (str_slice ?h 0 8 @ str_slice ?h 8 12 @ str_slice ?h 12 16
        @ str_slice ?h 16 20 @ str_slice ?h 20 (int (length ?h)))"
    by (simp add: processing_uuid_def str_uuid_def str_upper_def Let_def ascii_def
        upper_char_def [of 45] str_replace_single_append str_replace_single_Cons
        str_replace_absent [OF no_hyphen])
  then show ?thesis by (simp only: str_uuid_groups [OF len])
qed

lemma unat_uuid4_zero: "unat (uuid4 0) = 0x40008000000000000000"
  by (simp add: uuid4_def)

lemma replicate_numeral_unfold:
  "replicate (numeral k) x = x # replicate (pred_numeral k) x"
  by (simp add: numeral_eq_Suc)

lemma hex032_example: "hex032 0x40008000000000000000 = ascii ''00000000000040008000000000000000''"
  by (simp add: hex032_def hex_digits.simps hex_digit_def ascii_def replicate_numeral_unfold)

lemma processing_uuid_zero: "processing_uuid 0 = ascii ''00000000000040008000000000000000''"
  by (simp add: processing_uuid_eq unat_uuid4_zero hex032_example) (simp add: ascii_def upper_char_def)

section \<open>Facts about the run\<close>

lemma create_1c_processing_xml_unfold:
  "create_1c_processing_xml fs write_error r =
     (let m = read_file_content fs module_path;
          x = read_file_content fs extensions_path;
          f = read_file_content fs export_functions_path;
          full = full_module_code (snd m) (snd x) (snd f)
      in case write_error output_path of
           Some e \<Rightarrow> \<lparr>console = fst m @ fst x @ fst f, written = None, raised = Some e\<rparr>
         | None \<Rightarrow>
             \<lparr>console = fst m @ fst x @ fst f @
                 [created_prefix @ output_path,
                  uuid_prefix @ processing_uuid r,
                  size_prefix @ str_nat (length full) @ size_suffix],
              written = Some (output_path,
                xml_head @ processing_uuid r @ xml_before_module @ cdata_open @ full @
                cdata_close @ xml_after_module),
              raised = None\<rparr>)"
  by (simp add: create_1c_processing_xml_def Let_def case_prod_beta)

lemma read_file_content_Content:
  "fs filepath = Content s \<Longrightarrow> read_file_content fs filepath = ([], s)"
  by (simp add: read_file_content_def)

lemma read_file_content_ReadError:
  "fs filepath = ReadError e \<Longrightarrow>
     read_file_content fs filepath = ([read_error_prefix @ filepath @ ascii '': '' @ e], [])"
  by (simp add: read_file_content_def)

lemma snd_read_file_content_upd:
  "fs filepath = ReadError e \<Longrightarrow>
     snd (read_file_content (fs(filepath := Content [])) p) = snd (read_file_content fs p)"
  by (simp add: read_file_content_def)

lemma paths_distinct:
  "module_path \<noteq> extensions_path" "module_path \<noteq> export_functions_path"
  "extensions_path \<noteq> export_functions_path"
  by (simp_all add: module_path_def extensions_path_def export_functions_path_def ascii_def)

lemma str_nat_digit: "n < 10 \<Longrightarrow> str_nat n = [48 + n]"
  by (simp add: str_nat.simps)

lemma files_module_only:
  "files [(module_path, m)] module_path = Content m"
  "files [(module_path, m)] extensions_path = ReadError (ascii ''No such file or directory'')"
  "files [(module_path, m)] export_functions_path
     = ReadError (ascii ''No such file or directory'')"
  using paths_distinct by (auto simp add: files_def)

section \<open>Claims about the XML escaper\<close>

text \<open>
  C3: the escaper replaces every \<open>&\<close> by \<open>&amp;\<close>, every \<open><\<close> by \<open>&lt;\<close> and every \<open>>\<close> by
  \<open>&gt;\<close>, the ampersand first, so that the three passes of the code amount to mapping each
  character of the input once (no entity introduced by a later pass is escaped again);
  every other character, the quotation marks among them, is left as it is. For the input
  \<open>a & b < c > d\<close> the result is \<open>a &amp; b &lt; c &gt; d\<close>.
\<close>

theorem escape_xml_characterisation:
  "escape_xml s = concat (map escape_char_spec s)
   \<and> escape_char_spec (of_char CHR ''&'') = ascii ''&amp;''
   \<and> escape_char_spec (of_char CHR ''<'') = ascii ''&lt;''
   \<and> escape_char_spec (of_char CHR ''>'') = ascii ''&gt;''
   \<and> escape_char_spec 34 = [34] \<and> escape_char_spec 39 = [39]
   \<and> escape_xml (ascii ''a & b < c > d'') = ascii ''a &amp; b &lt; c &gt; d''"
  by (simp add: escape_xml_refines escape_xml_spec_def escape_char_spec_def ascii_def)

text \<open>
  C8: the escaper is not idempotent. Escaping \<open>&\<close> once gives \<open>&amp;\<close> and twice gives
  \<open>&amp;amp;\<close>; and for every text that holds one of \<open>&\<close>, \<open><\<close>, \<open>>\<close>, escaping it twice
  differs from escaping it once.
\<close>

theorem escape_xml_not_idempotent:
  "escape_xml (escape_xml (ascii ''&'')) = ascii ''&amp;amp;''
   \<and> escape_xml (ascii ''&'') = ascii ''&amp;''
   \<and> (\<forall>s. 38 \<in> set s \<or> 60 \<in> set s \<or> 62 \<in> set s
          \<longrightarrow> escape_xml (escape_xml s) \<noteq> escape_xml s)"
proof -
  have general: "escape_xml (escape_xml s) \<noteq> escape_xml s"
    if "38 \<in> set s \<or> 60 \<in> set s \<or> 62 \<in> set s" for s
  proof -
    from that have "38 \<in> set (escape_xml s)" by (rule amp_in_escape_xml)
    then have "length (escape_xml s) < length (escape_xml (escape_xml s))"
      by (rule length_escape_xml_amp)
    then show ?thesis by auto
  qed
  have "escape_xml (escape_xml (ascii ''&'')) = ascii ''&amp;amp;''"
    and "escape_xml (ascii ''&'') = ascii ''&amp;''"
    by (simp_all add: escape_xml_refines escape_xml_spec_def escape_char_spec_def ascii_def)
  with general show ?thesis by blast
qed

theorem escape_xml_not_idempotent_witness:
  "60 \<in> set (ascii ''a<b'')
   \<and> escape_xml (escape_xml (ascii ''a<b'')) \<noteq> escape_xml (ascii ''a<b'')"
proof -
  have h: "38 \<in> set (ascii ''a<b'') \<or> 60 \<in> set (ascii ''a<b'') \<or> 62 \<in> set (ascii ''a<b'')"
    by (simp add: ascii_def)
  have "60 \<in> set (ascii ''a<b'')" by (simp add: ascii_def)
  moreover from escape_xml_not_idempotent h
  have "escape_xml (escape_xml (ascii ''a<b'')) \<noteq> escape_xml (ascii ''a<b'')" by blast
  ultimately show ?thesis by simp
qed

section \<open>Claims about the fragment assembler\<close>

text \<open>
  C2: for every export-functions text \<open>sec\<close>: if the start marker does not occur in it, the
  assembled text is what it is with an empty export-functions text; if the start marker
  occurs (first at the end of \<open>pre\<close>) and the end marker does not occur after it, likewise;
  and if the end marker occurs after it (first at the end of \<open>mid\<close>), the assembled text is
  the module text, a blank line, the region from the start marker through the end marker
  with both markers, and then the extensions text after its own blank line, if any.
\<close>

theorem secondary_text_contribution:
  "(\<not> sublist start_marker sec \<longrightarrow>
      full_module_code p t sec = full_module_code p t [])
   \<and> (sec = pre @ start_marker @ rest
        \<and> \<not> sublist start_marker (pre @ butlast start_marker)
        \<and> \<not> sublist end_marker rest \<longrightarrow>
      full_module_code p t sec = full_module_code p t [])
   \<and> (sec = pre @ start_marker @ mid @ end_marker @ post
        \<and> \<not> sublist start_marker (pre @ butlast start_marker)
        \<and> \<not> sublist end_marker (mid @ butlast end_marker) \<longrightarrow>
      full_module_code p t sec =
        p @ ascii ''\<newline>\<newline>'' @ (start_marker @ mid @ end_marker)
          @ (if t = [] then [] else ascii ''\<newline>\<newline>'' @ t))"
  by (simp add: full_module_code_decomp program_interface_code_Nil
      program_interface_code_no_start program_interface_code_no_end
      program_interface_code_region ascii_def)

theorem secondary_text_contribution_witness:
  "\<not> sublist start_marker (ascii ''abc'')
   \<and> full_module_code (ascii ''P'') (ascii ''T'') (ascii ''abc'') = ascii ''P\<newline>\<newline>T''
   \<and> \<not> sublist start_marker (ascii ''x'' @ butlast start_marker)
   \<and> \<not> sublist end_marker (ascii ''y'')
   \<and> full_module_code (ascii ''P'') (ascii ''T'') (ascii ''x'' @ start_marker @ ascii ''y'')
       = ascii ''P\<newline>\<newline>T''
   \<and> \<not> sublist end_marker (ascii ''y'' @ butlast end_marker)
   \<and> full_module_code (ascii ''P'') (ascii ''T'')
         (ascii ''x'' @ start_marker @ ascii ''y'' @ end_marker @ ascii ''z'')
       = ascii ''P\<newline>\<newline>'' @ start_marker @ ascii ''y'' @ end_marker @ ascii ''\<newline>\<newline>T''"
proof -
  have h1: "\<not> sublist start_marker (ascii ''abc'')"
    by (simp add: start_marker_def ascii_def sublist_Cons_right)
  have h2: "\<not> sublist start_marker (ascii ''x'' @ butlast start_marker)"
    by (simp add: start_marker_def ascii_def sublist_Cons_right)
  have h3: "\<not> sublist end_marker (ascii ''y'')"
    by (simp add: end_marker_def ascii_def sublist_Cons_right)
  have h4: "\<not> sublist end_marker (ascii ''y'' @ butlast end_marker)"
    by (simp add: end_marker_def ascii_def sublist_Cons_right)
  have empty: "full_module_code (ascii ''P'') (ascii ''T'') [] = ascii ''P\<newline>\<newline>T''"
    by (simp add: full_module_code_decomp program_interface_code_Nil ascii_def)
  have c1: "full_module_code (ascii ''P'') (ascii ''T'') (ascii ''abc'') = ascii ''P\<newline>\<newline>T''"
    using secondary_text_contribution [of "ascii ''abc''" "ascii ''P''" "ascii ''T''"] h1 empty
    by simp
  have c2: "full_module_code (ascii ''P'') (ascii ''T'') (ascii ''x'' @ start_marker @ ascii ''y'')
      = ascii ''P\<newline>\<newline>T''"
    using secondary_text_contribution [of "ascii ''x'' @ start_marker @ ascii ''y''"
        "ascii ''P''" "ascii ''T''" "ascii ''x''" "ascii ''y''"] h2 h3 empty
    by simp
  have c3: "full_module_code (ascii ''P'') (ascii ''T'')
         (ascii ''x'' @ start_marker @ ascii ''y'' @ end_marker @ ascii ''z'')
       = ascii ''P\<newline>\<newline>'' @ start_marker @ ascii ''y'' @ end_marker @ ascii ''\<newline>\<newline>T''"
    using secondary_text_contribution [of
        "ascii ''x'' @ start_marker @ ascii ''y'' @ end_marker @ ascii ''z''"
        "ascii ''P''" "ascii ''T''" "ascii ''x''" _ "ascii ''y''" "ascii ''z''"] h2 h4
    by (simp add: ascii_def)
  from h1 h2 h3 h4 c1 c2 c3 show ?thesis by blast
qed

text \<open>
  C7: in every assembled module text the module text comes first, then (when a region is
  contributed) a blank line and the region of the export-functions text, then (when the
  extensions text is not empty) a blank line and the extensions text; this holds for
  every combination of inputs.
\<close>

theorem assembled_text_order:
  "full_module_code p t sec =
     p @ (case program_interface_code sec of
            None \<Rightarrow> []
          | Some region \<Rightarrow> ascii ''\<newline>\<newline>'' @ region)
       @ (if t = [] then [] else ascii ''\<newline>\<newline>'' @ t)"
  by (simp add: full_module_code_def split: option.split)

text \<open>
  C10: a region that is extracted starts at the first occurrence of the start marker and
  ends with the first occurrence of the end marker after that start marker. So whatever
  follows that end marker, a second end marker that closes an outer region included, is
  left out: with a nested region inside, the extraction stops at the inner end marker.
\<close>

theorem region_first_occurrences:
  "(program_interface_code sec = Some r \<longrightarrow>
      (\<exists>pre mid post. sec = pre @ start_marker @ mid @ end_marker @ post
         \<and> r = start_marker @ mid @ end_marker
         \<and> \<not> sublist start_marker (pre @ butlast start_marker)
         \<and> \<not> sublist end_marker (mid @ butlast end_marker)))
   \<and> (\<not> sublist end_marker (inner @ butlast end_marker) \<longrightarrow>
        program_interface_code
          (start_marker @ inner @ end_marker @ outer @ end_marker @ post)
        = Some (start_marker @ inner @ end_marker))"
proof -
  have "\<not> sublist start_marker ([] @ butlast start_marker)"
  proof
    assume "sublist start_marker ([] @ butlast start_marker)"
    then have "length start_marker \<le> length ([] @ butlast start_marker)"
      by (rule sublist_length_le)
    then show False by (simp add: start_marker_def)
  qed
  then have nested: "program_interface_code
          ([] @ start_marker @ inner @ end_marker @ outer @ end_marker @ post)
        = Some (start_marker @ inner @ end_marker)"
    if "\<not> sublist end_marker (inner @ butlast end_marker)"
    using that
    by (intro program_interface_code_region [of _ "[]" inner "outer @ end_marker @ post"])
      simp_all
  show ?thesis using program_interface_code_SomeD [of sec r] nested by simp
qed

theorem region_first_occurrences_witness:
  "program_interface_code
     (ascii ''x'' @ start_marker @ ascii ''a'' @ start_marker @ ascii ''b'' @ end_marker
        @ ascii ''c'' @ end_marker @ ascii ''z'')
   = Some (start_marker @ ascii ''a'' @ start_marker @ ascii ''b'' @ end_marker)
   \<and> \<not> sublist end_marker (ascii ''a'' @ start_marker @ ascii ''b'' @ butlast end_marker)
   \<and> program_interface_code
        (start_marker @ (ascii ''a'' @ start_marker @ ascii ''b'') @ end_marker
           @ ascii ''c'' @ end_marker @ ascii ''z'')
      = Some (start_marker @ (ascii ''a'' @ start_marker @ ascii ''b'') @ end_marker)"
proof -
  let ?inner = "ascii ''a'' @ start_marker @ ascii ''b''"
  have h: "\<not> sublist end_marker (?inner @ butlast end_marker)"
    by (simp add: start_marker_def end_marker_def ascii_def sublist_Cons_right)
  have h0: "\<not> sublist start_marker (ascii ''x'' @ butlast start_marker)"
    by (simp add: start_marker_def ascii_def sublist_Cons_right)
  have v: "program_interface_code
     (ascii ''x'' @ start_marker @ ?inner @ end_marker @ ascii ''c'' @ end_marker @ ascii ''z'')
     = Some (start_marker @ ?inner @ end_marker)"
    by (rule program_interface_code_region [OF _ h0 h]) simp
  from region_first_occurrences [of _ _ ?inner "ascii ''c''" "ascii ''z''"] h
  have "program_interface_code
        (start_marker @ ?inner @ end_marker @ ascii ''c'' @ end_marker @ ascii ''z'')
      = Some (start_marker @ ?inner @ end_marker)" by blast
  with h v show ?thesis by simp
qed

section \<open>Claims about the identifier\<close>

text \<open>
  C4: whatever the sixteen random bytes are, the identifier is a string of exactly 32
  characters, each of them one of the digits \<open>0\<close> to \<open>9\<close> or the capital letters \<open>A\<close> to
  \<open>F\<close>; the hyphen of the grouped form does not occur in it.
\<close>

theorem processing_uuid_format:
  "length (processing_uuid r) = 32
   \<and> set (processing_uuid r) \<subseteq> set (ascii ''0123456789ABCDEF'')
   \<and> 45 \<notin> set (processing_uuid r)"
proof -
  let ?h = "hex032 (unat (uuid4 r))"
  have "unat (uuid4 r) < 2 ^ LENGTH(128)" by (rule unsigned_less)
  then have len: "length ?h = 32" by (intro length_hex032) simp
  have up: "upper_hex c" if "c \<in> set (processing_uuid r)" for c
    using that by (auto simp add: processing_uuid_eq intro: upper_char_hex hex032_lower)
  have "c \<in> set (ascii ''0123456789ABCDEF'')" if "upper_hex c" for c
  proof -
    from that have "c = 48 \<or> c = 49 \<or> c = 50 \<or> c = 51 \<or> c = 52 \<or> c = 53 \<or> c = 54
        \<or> c = 55 \<or> c = 56 \<or> c = 57 \<or> c = 65 \<or> c = 66 \<or> c = 67 \<or> c = 68 \<or> c = 69
        \<or> c = 70"
      unfolding upper_hex_def by arith
    then show ?thesis by (auto simp add: ascii_def)
  qed
  with up have "set (processing_uuid r) \<subseteq> set (ascii ''0123456789ABCDEF'')" by blast
  moreover have "45 \<notin> set (processing_uuid r)"
    using up [of 45] by (auto simp add: upper_hex_def)
  moreover have "length (processing_uuid r) = 32"
    by (simp add: processing_uuid_eq len)
  ultimately show ?thesis by simp
qed

section \<open>Claims about the reader, the document and the summary\<close>

text \<open>
  C6: for every path, when opening or reading it fails the reader returns the empty string
  and prints one diagnostic line (the fixed words, the path, a colon and the message); no
  read failure ends the run, which raises exactly what writing the output raises; and the
  document written is the one written when the failing path holds an empty file.
\<close>

theorem read_failure_is_absence:
  "(fs filepath = ReadError e \<longrightarrow>
      read_file_content fs filepath
        = ([read_error_prefix @ filepath @ ascii '': '' @ e], []))
   \<and> raised (create_1c_processing_xml fs write_error r) = write_error output_path
   \<and> (fs filepath = ReadError e \<longrightarrow>
        written (create_1c_processing_xml fs write_error r)
          = written (create_1c_processing_xml (fs(filepath := Content [])) write_error r))"
proof -
  have "raised (create_1c_processing_xml fs write_error r) = write_error output_path"
    by (simp add: create_1c_processing_xml_unfold Let_def split: option.split)
  moreover have "written (create_1c_processing_xml fs write_error r)
          = written (create_1c_processing_xml (fs(filepath := Content [])) write_error r)"
    if "fs filepath = ReadError e"
    by (simp only: create_1c_processing_xml_unfold Let_def snd_read_file_content_upd [of fs filepath e, OF that])
      (simp split: option.split)
  ultimately show ?thesis by (simp add: read_file_content_ReadError)
qed

theorem read_failure_is_absence_witness:
  "files [(module_path, ascii ''X'')] extensions_path
     = ReadError (ascii ''No such file or directory'')
   \<and> read_file_content (files [(module_path, ascii ''X'')]) extensions_path
     = ([read_error_prefix @ extensions_path @ ascii '': No such file or directory''], [])
   \<and> written (create_1c_processing_xml (files [(module_path, ascii ''X'')]) (\<lambda>_. None) 0)
     = written (create_1c_processing_xml
         ((files [(module_path, ascii ''X'')])(extensions_path := Content [])) (\<lambda>_. None) 0)"
  using read_failure_is_absence [of "files [(module_path, ascii ''X'')]" extensions_path
      "ascii ''No such file or directory''" "\<lambda>_. None" 0]
  by (simp add: files_module_only ascii_def)

text \<open>
  C9: when the document has been written, the lines printed are the diagnostics of the
  three reads followed by exactly three lines: the output path, the identifier, and the
  number of characters of the assembled module text, which is the text before any
  escaping. When the three reads succeed these three lines are all that is printed.
\<close>

theorem console_summary:
  "(write_error output_path = None \<longrightarrow>
      console (create_1c_processing_xml fs write_error r) =
        fst (read_file_content fs module_path) @ fst (read_file_content fs extensions_path)
        @ fst (read_file_content fs export_functions_path)
        @ [created_prefix @ output_path,
           uuid_prefix @ processing_uuid r,
           size_prefix
             @ str_nat (length (full_module_code (snd (read_file_content fs module_path))
                  (snd (read_file_content fs extensions_path))
                  (snd (read_file_content fs export_functions_path))))
             @ size_suffix])
   \<and> (write_error output_path = None \<and> fs module_path = Content m
        \<and> fs extensions_path = Content x \<and> fs export_functions_path = Content f \<longrightarrow>
      console (create_1c_processing_xml fs write_error r) =
        [created_prefix @ output_path,
         uuid_prefix @ processing_uuid r,
         size_prefix @ str_nat (length (full_module_code m x f)) @ size_suffix])"
  by (simp add: create_1c_processing_xml_unfold Let_def read_file_content_Content)

theorem console_summary_witness:
  "console (create_1c_processing_xml
      (files [(module_path, ascii ''a&b''), (extensions_path, []), (export_functions_path, [])])
      (\<lambda>_. None) 0)
   = [created_prefix @ output_path,
      uuid_prefix @ processing_uuid 0,
      size_prefix @ ascii ''3'' @ size_suffix]
   \<and> length (escape_xml (ascii ''a&b'')) = 7"
proof -
  let ?fs = "files [(module_path, ascii ''a&b''), (extensions_path, []),
    (export_functions_path, [])]"
  have fs: "?fs module_path = Content (ascii ''a&b'')" "?fs extensions_path = Content []"
    "?fs export_functions_path = Content []"
    using paths_distinct by (auto simp add: files_def)
  have full: "full_module_code (ascii ''a&b'') [] [] = ascii ''a&b''"
    by (simp add: full_module_code_decomp program_interface_code_Nil)
  have "length (escape_xml (ascii ''a&b'')) = 7"
    by (simp add: escape_xml_refines escape_xml_spec_def escape_char_spec_def ascii_def)
  moreover from console_summary [of "\<lambda>_. None" ?fs 0 "ascii ''a&b''" "[]" "[]"] fs
  have "console (create_1c_processing_xml ?fs (\<lambda>_. None) 0)
      = [created_prefix @ output_path, uuid_prefix @ processing_uuid 0,
         size_prefix @ str_nat (length (full_module_code (ascii ''a&b'') [] [])) @ size_suffix]"
    by blast
  ultimately show ?thesis by (simp add: full) (simp add: ascii_def str_nat_digit)
qed

text \<open>
  C5: with empty export-functions and extensions texts the assembled text is the module
  text itself, nothing added. So when the module file holds \<open>m\<close> and the two other reads
  give the empty string, the character-data block of the document written holds exactly
  \<open>m\<close>, and the last line printed reports the length of \<open>m\<close>; for \<open>m = X\<close> that length is 1.
\<close>

theorem primary_only:
  "full_module_code m [] [] = m
   \<and> (fs module_path = Content m
        \<and> snd (read_file_content fs extensions_path) = []
        \<and> snd (read_file_content fs export_functions_path) = []
        \<and> write_error output_path = None \<longrightarrow>
      written (create_1c_processing_xml fs write_error r) =
        Some (output_path,
          xml_head @ processing_uuid r @ xml_before_module @ cdata_open @ m @ cdata_close
            @ xml_after_module)
      \<and> last (console (create_1c_processing_xml fs write_error r)) =
          size_prefix @ str_nat (length m) @ size_suffix)"
proof -
  have "full_module_code m [] [] = m"
    by (simp add: full_module_code_decomp program_interface_code_Nil)
  then show ?thesis
    by (simp add: create_1c_processing_xml_unfold Let_def read_file_content_Content)
qed

theorem primary_only_witness:
  "written (create_1c_processing_xml (files [(module_path, ascii ''X'')]) (\<lambda>_. None) 0) =
     Some (output_path,
       xml_head @ processing_uuid 0 @ xml_before_module @ cdata_open @ ascii ''X''
         @ cdata_close @ xml_after_module)
   \<and> last (console (create_1c_processing_xml (files [(module_path, ascii ''X'')])
        (\<lambda>_. None) 0)) = size_prefix @ ascii ''1'' @ size_suffix"
proof -
  let ?fs = "files [(module_path, ascii ''X'')]"
  have h: "?fs module_path = Content (ascii ''X'')"
    "snd (read_file_content ?fs extensions_path) = []"
    "snd (read_file_content ?fs export_functions_path) = []"
    by (simp_all add: files_module_only read_file_content_ReadError)
  have "str_nat (length (ascii ''X'')) = ascii ''1''"
    by (simp add: ascii_def str_nat_digit)
  with primary_only [of "ascii ''X''" ?fs "\<lambda>_. None" 0] h show ?thesis by simp
qed

text \<open>
  C1: the claim is that the character-data block of the module holds the assembled text
  after escaping. The code computes the escaped text and then writes the unescaped one:
  with a module file that holds \<open>a&b\<close> and no other file, the block of the document
  written holds \<open>a&b\<close>, whereas the escaper gives \<open>a&amp;b\<close>.
\<close>

theorem module_block_holds_unescaped_text:
  "written (create_1c_processing_xml (files [(module_path, ascii ''a&b'')]) (\<lambda>_. None) r) =
     Some (output_path,
       xml_head @ processing_uuid r @ xml_before_module @ cdata_open @ ascii ''a&b''
         @ cdata_close @ xml_after_module)
   \<and> escape_xml (ascii ''a&b'') = ascii ''a&amp;b''
   \<and> written (create_1c_processing_xml (files [(module_path, ascii ''a&b'')]) (\<lambda>_. None) r) \<noteq>
     Some (output_path,
       xml_head @ processing_uuid r @ xml_before_module @ cdata_open
         @ escape_xml (ascii ''a&b'') @ cdata_close @ xml_after_module)"
proof -
  let ?fs = "files [(module_path, ascii ''a&b'')]"
  have full: "full_module_code (ascii ''a&b'') [] [] = ascii ''a&b''"
    by (simp add: full_module_code_decomp program_interface_code_Nil)
  have w: "written (create_1c_processing_xml ?fs (\<lambda>_. None) r) =
     Some (output_path,
       xml_head @ processing_uuid r @ xml_before_module @ cdata_open @ ascii ''a&b''
         @ cdata_close @ xml_after_module)"
    by (simp add: create_1c_processing_xml_unfold Let_def files_module_only
        read_file_content_Content read_file_content_ReadError full)
  have e: "escape_xml (ascii ''a&b'') = ascii ''a&amp;b''"
    by (simp add: escape_xml_refines escape_xml_spec_def escape_char_spec_def ascii_def)
  have "ascii ''a&b'' \<noteq> ascii ''a&amp;b''" by (simp add: ascii_def)
  with w e show ?thesis by simp
qed

end
